theory Spec2Isabelle
  imports Main "HOL-Library.Word"
begin

section \<open>JavaScript strings\<close>

text \<open>
  A JavaScript string is a sequence of UTF-16 code units; \<open>length\<close>, \<open>indexOf\<close>,
  \<open>substring\<close>, \<open>startsWith\<close> and \<open>trim\<close> all work on code units. The model is a list
  of 16-bit words. \<open>js\<close> turns an ASCII literal into such a list.
\<close>

type_synonym jschar = "16 word"
type_synonym jsstring = "16 word list"

definition js :: "string \<Rightarrow> jsstring" where
  "js s = map (\<lambda>c. of_nat (of_char c)) s"

text \<open>
  The code units that \<open>String.prototype.trim\<close> removes: ECMAScript WhiteSpace
  (TAB, VT, FF, SP, NBSP, ZWNBSP and the Unicode category Zs) and LineTerminator
  (LF, CR, LS, PS).
\<close>

definition isWhiteSpace :: "jschar \<Rightarrow> bool" where
  "isWhiteSpace c \<longleftrightarrow>
     c \<in> set [0x0009, 0x000A, 0x000B, 0x000C, 0x000D, 0x0020, 0x00A0, 0x1680,
              0x2000, 0x2001, 0x2002, 0x2003, 0x2004, 0x2005, 0x2006, 0x2007,
              0x2008, 0x2009, 0x200A, 0x2028, 0x2029, 0x202F, 0x205F, 0x3000, 0xFEFF]"

definition trimStart :: "jsstring \<Rightarrow> jsstring" where
  "trimStart s = dropWhile isWhiteSpace s"

definition trimEnd :: "jsstring \<Rightarrow> jsstring" where
  "trimEnd s = rev (dropWhile isWhiteSpace (rev s))"

definition trim :: "jsstring \<Rightarrow> jsstring" where
  "trim s = trimEnd (trimStart s)"

definition startsWith :: "jsstring \<Rightarrow> jsstring \<Rightarrow> bool" where
  "startsWith s p \<longleftrightarrow> take (length p) s = p"

definition endsWith :: "jsstring \<Rightarrow> jsstring \<Rightarrow> bool" where
  "endsWith s p \<longleftrightarrow> length p \<le> length s \<and> drop (length s - length p) s = p"

text \<open>
  \<open>s.substring(a, b)\<close>: both indices are clamped to \<open>[0, length]\<close> and swapped when
  they come in the wrong order. \<open>s.substring(a)\<close> runs to the end of the string.
\<close>

definition substring :: "jsstring \<Rightarrow> int \<Rightarrow> int \<Rightarrow> jsstring" where
  "substring s a b =
     (let n = int (length s);
          finalStart = min (max a 0) n;
          finalEnd = min (max b 0) n;
          from = min finalStart finalEnd;
          to = max finalStart finalEnd
      in take (nat (to - from)) (drop (nat from) s))"

definition substringFrom :: "jsstring \<Rightarrow> int \<Rightarrow> jsstring" where
  "substringFrom s a = substring s a (int (length s))"

text \<open>
  \<open>s.indexOf(p, pos)\<close>: the least index \<open>i \<ge> pos\<close> (with \<open>pos\<close> clamped to
  \<open>[0, length]\<close>) at which \<open>p\<close> occurs in \<open>s\<close>, and \<open>-1\<close> when there is none.
  \<open>find_at p rest k\<close> searches the remainder \<open>rest\<close> of the string, which starts at
  index \<open>k\<close>.
\<close>

primrec find_at :: "jsstring \<Rightarrow> jsstring \<Rightarrow> nat \<Rightarrow> int" where
  "find_at p [] k = (if p = [] then int k else - 1)"
| "find_at p (c # cs) k = (if startsWith (c # cs) p then int k else find_at p cs (Suc k))"

definition indexOf :: "jsstring \<Rightarrow> jsstring \<Rightarrow> int \<Rightarrow> int" where
  "indexOf s p pos =
     (let start = nat (min (max pos 0) (int (length s)))
      in find_at p (drop start s) start)"

text \<open>\<open>s.split(sep)\<close> for a separator of one code unit, and \<open>lines.join(sep)\<close>.\<close>

fun split :: "jsstring \<Rightarrow> jschar \<Rightarrow> jsstring list" where
  "split [] sep = [[]]"
| "split (c # cs) sep =
     (if c = sep then [] # split cs sep
      else (case split cs sep of
              [] \<Rightarrow> [[c]]
            | l # ls \<Rightarrow> (c # l) # ls))"

fun join :: "jsstring list \<Rightarrow> jsstring \<Rightarrow> jsstring" where
  "join [] sep = []"
| "join [l] sep = l"
| "join (l # ls) sep = l @ sep @ join ls sep"

definition newline :: jschar where
  "newline = 0x000A"

section \<open>The visualize route: cleaning the generated code\<close>

text \<open>
  Lines 177 to 200 of the visualize route, between reading the model's text and
  running it: trimming, removal of a leading \<open>```python\<close> and a trailing \<open>```\<close>,
  removal of a first line that is only \<open>python\<close> or \<open>```python\<close>, and a second
  removal of a trailing \<open>```\<close>.
\<close>

definition fence_python :: jsstring where
  "fence_python = js ''```python''"

definition fence :: jsstring where
  "fence = js ''```''"

definition strip_trailing_fence :: "jsstring \<Rightarrow> jsstring" where
  "strip_trailing_fence cleanedCode =
     (if endsWith cleanedCode fence
      then trimEnd (substring cleanedCode 0 (int (length cleanedCode) - int (length fence)))
      else cleanedCode)"

definition cleanCode :: "jsstring \<Rightarrow> jsstring" where
  "cleanCode generatedCode =
     (let cleanedCode = trim generatedCode;
          cleanedCode =
            (if startsWith cleanedCode fence_python
             then trimStart (substringFrom cleanedCode (int (length fence_python)))
             else cleanedCode);
          cleanedCode = strip_trailing_fence cleanedCode;
          lines = split cleanedCode newline;
          cleanedCode =
            (if trim (hd lines) = js ''python'' then join (tl lines) [newline]
             else if trim (hd lines) = fence_python then join (tl lines) [newline]
             else cleanedCode)
      in strip_trailing_fence cleanedCode)"

section \<open>Building the prompt\<close>

text \<open>
  \<open>String.prototype.replace\<close> with a string pattern replaces the first occurrence only,
  and reads the replacement string as a replacement pattern (ECMAScript GetSubstitution):
  \<open>$$\<close> stands for one dollar sign, \<open>$&\<close> for the matched text, \<open>$`\<close> for the
  text before the match and \<open>$'\<close> for the text after it. A string pattern has no
  capture groups, so \<open>$1\<close> and \<open>$<name>\<close> are kept as they are, like every other
  code unit.
\<close>

fun GetSubstitution :: "jsstring \<Rightarrow> jsstring \<Rightarrow> jsstring \<Rightarrow> jsstring \<Rightarrow> jsstring" where
  "GetSubstitution matched preceding following [] = []"
| "GetSubstitution matched preceding following [c] = [c]"
| "GetSubstitution matched preceding following (c # d # r) =
     (if c = 0x24 \<and> d = 0x24 then 0x24 # GetSubstitution matched preceding following r
      else if c = 0x24 \<and> d = 0x26 then matched @ GetSubstitution matched preceding following r
      else if c = 0x24 \<and> d = 0x60 then preceding @ GetSubstitution matched preceding following r
      else if c = 0x24 \<and> d = 0x27 then following @ GetSubstitution matched preceding following r
      else c # GetSubstitution matched preceding following (d # r))"

definition replace :: "jsstring \<Rightarrow> jsstring \<Rightarrow> jsstring \<Rightarrow> jsstring" where
  "replace s searchValue replaceValue =
     (let pos = indexOf s searchValue 0
      in if pos = - 1 then s
         else (let preceding = substring s 0 pos;
                   following = substringFrom s (pos + int (length searchValue))
               in preceding @ GetSubstitution searchValue preceding following replaceValue @ following))"

text \<open>The template of lines 11 to 55, one list element for each line of the source.\<close>

definition template_lines :: "jsstring list" where
  \<open>template_lines =
    [js ''\<newline>'',
     js ''You are an expert Python programmer specializing in mathematical visualizations.\<newline>'',
     js ''Your task is to take a math problem description and generate Python code to visualize it.\<newline>'',
     js ''\<newline>'',
     js ''The visualization should be clear, mathematically accurate, and aesthetically pleasing.\<newline>'',
     js ''\<newline>'',
     js ''Key requirements for the visualization:\<newline>'',
     js ''- When relevant to the problem, include text annotations directly on the image. These annotations should display:\<newline>'',
     js ''    - Lengths of givensides (e.g., '3cm', 'x units').\<newline>'',
     js ''    - given areas (e.g., 'Area = 35 cm'' @ [0x00B2] @ js ''').\<newline>'',
     js ''    - Measures of angles (e.g., '30'' @ [0x00B0] @ js ''', '' @ [0x0027] @ [0x03B8] @ js ''').\<newline>'',
     js ''    - Coordinates of important points only if they are part of the problem.\<newline>'',
     js ''- Use Matplotlib's `plt.text()` or an Axes object's `ax.text()` / `ax.annotate()` methods for these text annotations.\<newline>'',
     js ''- Ensure all annotations are legible, clearly positioned (e.g., near the feature they describe but not overlapping other important elements or each other), with minimal text and appropriately sized for clarity.\<newline>'',
     js ''- The numerical values, variables, and units in these annotations must precisely match the problem statement.\<newline>'',
     js ''- Represent geometric figures accurately according to the problem's specifications (e.g., right angles should appear as 90 degrees, relative lengths should be visually proportional if specific values are given, etc.).\<newline>'',
     js ''\<newline>'',
     js ''Use the Matplotlib library for plotting both analytic geometry problems (lines, functions, points on a coordinate plane) and general geometric shapes (triangles, circles, polygons, angles).\<newline>'',
     js ''Ensure all geometric constructions and renderings are done directly with Matplotlib.\<newline>'',
     js ''\<newline>'',
     js ''Output ONLY the Python code required to generate the visualization. Do not include any explanatory text, markdown formatting, or anything other than the Python code itself.\<newline>'',
     js ''\<newline>'',
     js ''Important: The Matplotlib plot should be converted to a base64 encoded string directly in the Python code and printed to standard output. \<newline>'',
     js ''Specifically, after creating the plot with plt.figure() (or plt.subplots()), use the following snippet to get the base64 string:\<newline>'',
     js ''\<newline>'',
     js ''import io\<newline>'',
     js ''import base64\<newline>'',
     js ''\<newline>'',
     js ''pic_iobytes = io.BytesIO()\<newline>'',
     js ''plt.savefig(pic_iobytes, format='png')\<newline>'',
     js ''pic_iobytes.seek(0)\<newline>'',
     js ''pic_hash = base64.b64encode(pic_iobytes.read())\<newline>'',
     js ''print(f"MATPLOTLIB_BASE64_START:{pic_hash.decode('utf-8')}:MATPLOTLIB_BASE64_END")\<newline>'',
     js ''plt.close() # Close the plot to free up memory\<newline>'',
     js ''\<newline>'',
     js ''Ensure no other print statements are present in the Python code output, only the base64 string in the format specified above.\<newline>'',
     js ''Do not save to a file like 'visualization.png'.\<newline>'',
     js ''\<newline>'',
     js ''Here is the math problem:\<newline>'',
     js ''--- START PROBLEM ---\<newline>'',
     js ''{PROBLEM_TEXT}\<newline>'',
     js ''--- END PROBLEM ---\<newline>'',
     js ''\<newline>'',
     js ''Python code (printing base64 string of the plot):\<newline>'']\<close>

definition ENGINEERED_PROMPT_TEMPLATE :: jsstring where
  "ENGINEERED_PROMPT_TEMPLATE = concat template_lines"

definition PROBLEM_TEXT_placeholder :: jsstring where
  "PROBLEM_TEXT_placeholder = js ''{PROBLEM_TEXT}''"

definition fullPrompt :: "jsstring \<Rightarrow> jsstring" where
  "fullPrompt problemText =
     replace ENGINEERED_PROMPT_TEMPLATE PROBLEM_TEXT_placeholder problemText"

text \<open>
  The reading of the specification, to compare \<open>fullPrompt\<close> with: the template is the
  text before the placeholder, the placeholder and the text after it
  (\<open>template_head @ PROBLEM_TEXT_placeholder @ template_tail\<close>), and the prompt has the
  problem text, unchanged, where the placeholder was.
\<close>

definition template_head :: jsstring where
  "template_head = concat (take 40 template_lines)"

definition template_tail :: jsstring where
  "template_tail = newline # concat (drop 41 template_lines)"

definition literal_prompt :: "jsstring \<Rightarrow> jsstring" where
  "literal_prompt problemText = template_head @ problemText @ template_tail"

section \<open>Running the generated code\<close>

text \<open>
  Lines 58 to 96, \<open>executePython\<close>.
  What the child process does is a list of the events it emits, in order: chunks of
  standard output and standard error, \<open>close\<close> with the exit code (\<open>null\<close> when a
  signal ended the process) and \<open>error\<close>. A list without \<open>close\<close> and without
  \<open>error\<close> is a process that never ends: the promise of \<open>executePython\<close> stays
  pending, which is the result \<open>None\<close>. The model starts from a call of \<open>spawn\<close>
  that returns a child process; a call of \<open>spawn\<close> that throws at once (a code with a
  NUL code unit, an argument list that is too long) is not part of it.
\<close>

datatype proc_event =
    StdoutData jsstring
  | StderrData jsstring
  | Close "int option"
  | ProcError jsstring

datatype settlement = Resolved jsstring | Rejected jsstring

record py_state =
  stdout :: jsstring
  stderr :: jsstring
  settled :: "settlement option"

text \<open>A promise keeps its first settlement; later calls of resolve and reject do nothing.\<close>

definition settle :: "settlement \<Rightarrow> py_state \<Rightarrow> py_state" where
  "settle r st = (case settled st of None \<Rightarrow> st\<lparr>settled := Some r\<rparr> | Some _ \<Rightarrow> st)"

function show_nat :: "nat \<Rightarrow> jsstring" where
  "show_nat n =
     (if n < 10 then [0x30 + of_nat n]
      else show_nat (n div 10) @ [0x30 + of_nat (n mod 10)])"
  by pat_completeness auto
termination
  by (relation "measure (\<lambda>n. n)") auto

declare show_nat.simps [simp del]

definition show_int :: "int \<Rightarrow> jsstring" where
  "show_int i = (if i < 0 then 0x2D # show_nat (nat (- i)) else show_nat (nat i))"

definition show_exitCode :: "int option \<Rightarrow> jsstring" where
  "show_exitCode exitCode = (case exitCode of None \<Rightarrow> js ''null'' | Some c \<Rightarrow> show_int c)"

fun handle_event :: "py_state \<Rightarrow> proc_event \<Rightarrow> py_state" where
  "handle_event st (StdoutData d) = st\<lparr>stdout := stdout st @ d\<rparr>"
| "handle_event st (StderrData d) = st\<lparr>stderr := stderr st @ d\<rparr>"
| "handle_event st (Close exitCode) =
     (if exitCode = Some 0 then settle (Resolved (stdout st)) st
      else settle (Rejected (js ''Python script execution failed with code ''
                               @ show_exitCode exitCode @ js '': '' @ stderr st)) st)"
| "handle_event st (ProcError message) =
     settle (Rejected (js ''Failed to start Python process: '' @ message)) st"

definition executePython :: "(jsstring \<Rightarrow> proc_event list) \<Rightarrow> jsstring \<Rightarrow> settlement option" where
  "executePython spawn code =
     settled (foldl handle_event \<lparr>stdout = [], stderr = [], settled = None\<rparr> (spawn code))"

section \<open>Responses\<close>

text \<open>
  The generation model's answer, as far as the route reads it: the block reason of the
  prompt feedback, and \<open>text()\<close>, which returns the text or throws.
\<close>

record prompt_feedback =
  blockReason :: "jsstring option"

datatype text_result = TextThrows jsstring | TextReturns jsstring

record gen_response =
  promptFeedback :: "prompt_feedback option"
  response_text :: text_result

datatype generation =
    GenPending
  | GenRejects jsstring
  | GenResolves "gen_response option"

text \<open>The answer of the OCR service, as far as the OCR route reads it.\<close>

record parsed_result =
  ParsedText :: "jsstring option"

record ocr_data =
  IsErroredOnProcessing :: bool
  ErrorMessage :: "jsstring list option"
  ErrorDetails :: "jsstring option"
  ParsedResults :: "parsed_result list option"

datatype detail = Text jsstring | Lines "jsstring list" | Feedback prompt_feedback

text \<open>
  What \<open>NextResponse.json\<close> sends: the status and the fields of the body. A field that
  the body does not have is \<open>None\<close>.
\<close>

record response =
  status :: int
  imageBase64 :: "jsstring option"
  extractedText :: "jsstring option"
  body_ocrData :: "ocr_data option"
  error :: "jsstring option"
  details :: "detail option"
  error_type :: "jsstring option"

definition error_response :: "int \<Rightarrow> jsstring \<Rightarrow> detail option \<Rightarrow> response" where
  "error_response code message d =
     \<lparr>status = code, imageBase64 = None, extractedText = None, body_ocrData = None,
      error = Some message, details = d, error_type = None\<rparr>"

section \<open>The visualize route\<close>

text \<open>Lines 210 to 230: the image between the two markers of the script's output.\<close>

definition base64MarkerStart :: jsstring where
  "base64MarkerStart = js ''MATPLOTLIB_BASE64_START:''"

definition base64MarkerEnd :: jsstring where
  "base64MarkerEnd = js '':MATPLOTLIB_BASE64_END''"

definition image_response :: "jsstring \<Rightarrow> response" where
  "image_response payload =
     \<lparr>status = 200, imageBase64 = Some payload, extractedText = None, body_ocrData = None,
      error = None, details = None, error_type = None\<rparr>"

definition extract_image :: "jsstring \<Rightarrow> response" where
  "extract_image pythonOutput =
     (let startIndex = indexOf pythonOutput base64MarkerStart 0;
          endIndex = indexOf pythonOutput base64MarkerEnd
                       (startIndex + int (length base64MarkerStart))
      in if startIndex \<noteq> - 1 \<and> endIndex \<noteq> - 1
         then image_response
                (substring pythonOutput (startIndex + int (length base64MarkerStart)) endIndex)
         else error_response 500 (js ''Failed to process visualization from Python script'')
                (Some (Text (js ''Could not find base64 image markers in the script output. Python output was: ''
                             @ pythonOutput))))"

text \<open>
  The body of a request is what \<open>request.text()\<close> gives (or the message it rejects
  with). \<open>JSON.parse\<close> belongs to the runtime and is a parameter of the model; it
  returns a value or the message of the SyntaxError. Numbers are kept as integers:
  the route only asks a number whether it is a string.
\<close>

datatype json =
    JNull
  | JBool bool
  | JNum int
  | JStr jsstring
  | JArr "json list"
  | JObj "(jsstring \<times> json) list"

datatype request = BodyError jsstring | RawBody jsstring

record world =
  GEMINI_API_KEY :: "jsstring option"
  JSON_parse :: "jsstring \<Rightarrow> jsstring + json"
  generateContent :: "jsstring \<Rightarrow> generation"
  spawn_python :: "jsstring \<Rightarrow> proc_event list"

datatype effect = ReadBody | ModelCall jsstring | Spawn jsstring

text \<open>
  \<open>body.problemText\<close>: reading a property of \<open>null\<close> throws a TypeError, an object
  gives the value of the key or \<open>undefined\<close>, every other value gives \<open>undefined\<close>.
\<close>

fun get_property :: "json \<Rightarrow> jsstring \<Rightarrow> jsstring + json option" where
  "get_property JNull k = Inl (js ''Cannot read properties of null (reading '' @ [0x0027] @ k @ [0x0027] @ js '')'')"
| "get_property (JObj kvs) k = Inr (map_of kvs k)"
| "get_property v k = Inr None"

fun truthy :: "json option \<Rightarrow> bool" where
  "truthy None = False"
| "truthy (Some JNull) = False"
| "truthy (Some (JBool b)) = b"
| "truthy (Some (JNum n)) = (n \<noteq> 0)"
| "truthy (Some (JStr s)) = (s \<noteq> [])"
| "truthy (Some (JArr vs)) = True"
| "truthy (Some (JObj kvs)) = True"

fun as_string :: "json option \<Rightarrow> jsstring option" where
  "as_string (Some (JStr s)) = Some s"
| "as_string v = None"

text \<open>Lines 206 to 238: running the cleaned code and reading its output.\<close>

definition run_code :: "world \<Rightarrow> jsstring \<Rightarrow> response option" where
  "run_code w cleanedCode =
     (case executePython (spawn_python w) cleanedCode of
        None \<Rightarrow> None
      | Some (Resolved pythonOutput) \<Rightarrow> Some (extract_image pythonOutput)
      | Some (Rejected message) \<Rightarrow>
          Some (error_response 500 (js ''Error executing visualization script'')
                  (Some (Text message))))"

definition blocked :: "gen_response \<Rightarrow> jsstring option" where
  "blocked r =
     (case promptFeedback r of
        None \<Rightarrow> None
      | Some fb \<Rightarrow> (case blockReason fb of
                     None \<Rightarrow> None
                   | Some reason \<Rightarrow> if reason = [] then None else Some reason))"

text \<open>Lines 146 to 246: what the route does with the model's answer.\<close>

definition handle_generation :: "world \<Rightarrow> generation \<Rightarrow> response option \<times> effect list" where
  "handle_generation w g =
     (case g of
        GenPending \<Rightarrow> (None, [])
      | GenRejects message \<Rightarrow>
          (Some (error_response 500 (js ''Error calling Gemini API'') (Some (Text message))), [])
      | GenResolves None \<Rightarrow>
          (Some (error_response 500 (js ''AI model returned an empty response'') None), [])
      | GenResolves (Some r) \<Rightarrow>
          (case blocked r of
             Some reason \<Rightarrow>
               (Some (error_response 400 (js ''Content blocked: '' @ reason)
                        (Some (Feedback (the (promptFeedback r))))), [])
           | None \<Rightarrow>
               (case response_text r of
                  TextThrows message \<Rightarrow>
                    (Some (error_response 500 (js ''Error calling Gemini API'')
                             (Some (Text message))), [])
                | TextReturns generatedCode \<Rightarrow>
                    if generatedCode = [] \<or> trim generatedCode = []
                    then (Some (error_response 500 (js ''Empty response from AI'') None), [])
                    else if startsWith generatedCode (js ''ERROR:CANNOT_VISUALIZE:'')
                    then (Some (error_response 422 (js ''Problem cannot be visualized by AI'')
                                  (Some (Text generatedCode))), [])
                    else (let cleanedCode = cleanCode generatedCode
                          in (run_code w cleanedCode, [Spawn cleanedCode])))))"

text \<open>
  The route. The result is the response, \<open>None\<close> when the route never answers, and the
  list of what the route did to the outside, in order: reading the body, calling the
  model with a prompt, starting a Python process with a code.
\<close>

definition POST :: "world \<Rightarrow> request \<Rightarrow> response option \<times> effect list" where
  "POST w request =
     (let apiKey = GEMINI_API_KEY w
      in if apiKey = None \<or> apiKey = Some []
         then (Some (error_response 500
                       (js ''AI service configuration error - API key not found'')
                       (Some (Text (js ''Please set the GEMINI_API_KEY environment variable'')))),
               [])
         else (case request of
                 BodyError message \<Rightarrow>
                   (Some (error_response 400 (js ''Invalid JSON in request body'')
                            (Some (Text message))), [ReadBody])
               | RawBody rawBody \<Rightarrow>
                   (case JSON_parse w rawBody of
                      Inl message \<Rightarrow>
                        (Some (error_response 400 (js ''Invalid JSON in request body'')
                                 (Some (Text message))), [ReadBody])
                    | Inr body \<Rightarrow>
                        (case get_property body (js ''problemText'') of
                           Inl message \<Rightarrow>
                             (Some ((error_response 500 (js ''Internal server error'')
                                       (Some (Text message)))
                                    \<lparr>error_type := Some (js ''TypeError'')\<rparr>), [ReadBody])
                         | Inr problemText \<Rightarrow>
                             if \<not> truthy problemText \<or> as_string problemText = None
                                \<or> trim (the (as_string problemText)) = []
                             then (Some (error_response 400
                                           (js ''No problem text provided or text is invalid.'')
                                           None), [ReadBody])
                             else (let prompt = fullPrompt (the (as_string problemText));
                                       (r, effects) = handle_generation w (generateContent w prompt)
                                   in (r, [ReadBody, ModelCall prompt] @ effects))))))"

section \<open>The OCR route\<close>

text \<open>
  The form of the request (or the message \<open>request.formData()\<close> rejects with), and what
  \<open>fetch\<close> to the OCR service gives: a rejection, or a response with its status and
  the outcome of parsing its body as JSON. When the service answers without success the
  route passes the status of the service on; the model takes that status to be one that
  a response with a body may have (not 304, for which \<open>NextResponse.json\<close> throws).
\<close>

record ocr_form =
  form_file :: "8 word list option"
  language :: "jsstring option"

datatype ocr_request = FormError jsstring | Form ocr_form

record ocr_upload =
  upload_file :: "8 word list"
  apikey :: jsstring
  upload_language :: jsstring
  isOverlayRequired :: jsstring

record ocr_http =
  ok :: bool
  http_status :: int
  json_body :: "jsstring + ocr_data"

datatype fetched = FetchPending | FetchRejects jsstring | FetchResolves ocr_http

record ocr_world =
  OCR_SPACE_API_KEY :: "jsstring option"
  fetch_ocr :: "ocr_upload \<Rightarrow> fetched"

definition or_default :: "jsstring option \<Rightarrow> jsstring \<Rightarrow> jsstring" where
  "or_default v d = (case v of None \<Rightarrow> d | Some s \<Rightarrow> if s = [] then d else s)"

definition ocr_ok :: "jsstring option \<Rightarrow> ocr_data option \<Rightarrow> response" where
  "ocr_ok t d =
     \<lparr>status = 200, imageBase64 = None, extractedText = t, body_ocrData = d,
      error = None, details = None, error_type = None\<rparr>"

definition request_failed_details :: "jsstring + ocr_data \<Rightarrow> detail" where
  "request_failed_details parsed =
     (case parsed of
        Inl message \<Rightarrow> Text (js ''Unknown OCR API error'')
      | Inr errorData \<Rightarrow>
          (case ErrorMessage errorData of
             Some ms \<Rightarrow> Lines ms
           | None \<Rightarrow> Text (or_default (ErrorDetails errorData) (js ''Unknown OCR API error''))))"

definition POST_ocr :: "ocr_world \<Rightarrow> ocr_request \<Rightarrow> response option" where
  "POST_ocr w request =
     (case request of
        FormError message \<Rightarrow>
          Some (error_response 500 (js ''Internal server error.'') (Some (Text message)))
      | Form formData \<Rightarrow>
          (case form_file formData of
             None \<Rightarrow> Some (error_response 400 (js ''No file provided.'') None)
           | Some f \<Rightarrow>
               (let ocrApiKey = OCR_SPACE_API_KEY w
                in if ocrApiKey = None \<or> ocrApiKey = Some []
                   then Some (error_response 500 (js ''OCR service configuration error.'') None)
                   else (case fetch_ocr w \<lparr>upload_file = f, apikey = the ocrApiKey,
                                           upload_language = or_default (language formData) (js ''eng''),
                                           isOverlayRequired = js ''false''\<rparr> of
                           FetchPending \<Rightarrow> None
                         | FetchRejects message \<Rightarrow>
                             Some (error_response 500 (js ''Internal server error.'')
                                     (Some (Text message)))
                         | FetchResolves ocrResponse \<Rightarrow>
                             if \<not> ok ocrResponse
                             then Some (error_response (http_status ocrResponse)
                                          (js ''OCR API request failed with status ''
                                           @ show_int (http_status ocrResponse) @ js ''.'')
                                          (Some (request_failed_details (json_body ocrResponse))))
                             else (case json_body ocrResponse of
                                     Inl message \<Rightarrow>
                                       Some (error_response 500 (js ''Internal server error.'')
                                               (Some (Text message)))
                                   | Inr ocrData \<Rightarrow>
                                       if IsErroredOnProcessing ocrData
                                       then Some (error_response 500 (js ''OCR processing failed.'')
                                                    (Some (Text (or_default
                                                       (map_option (\<lambda>ms. join ms (js '', '')) (ErrorMessage ocrData))
                                                       (js ''See OCR API logs for details.'')))))
                                       else if ParsedResults ocrData = None \<or> ParsedResults ocrData = Some []
                                       then Some (ocr_ok (Some (js ''No text found in image.'')) (Some ocrData))
                                       else Some (ocr_ok (ParsedText (hd (the (ParsedResults ocrData)))) None))))))"

section \<open>Notions of the specification\<close>


definition error_envelope :: "response \<Rightarrow> bool" where
  "error_envelope r \<longleftrightarrow>
     (status r = 400 \<or> status r = 422 \<or> status r = 500) \<and> error r \<noteq> None \<and> imageBase64 r = None"



text \<open>\<open>p\<close> occurs in \<open>s\<close> at index \<open>i\<close>; \<open>p\<close> occurs in \<open>s\<close> somewhere.\<close>

definition occurs_at :: "jsstring \<Rightarrow> jsstring \<Rightarrow> nat \<Rightarrow> bool" where
  "occurs_at p s i \<longleftrightarrow> i \<le> length s \<and> startsWith (drop i s) p"

definition occurrences :: "jsstring \<Rightarrow> jsstring \<Rightarrow> nat list" where
  "occurrences p s = filter (occurs_at p s) [0..<Suc (length s)]"

definition contains :: "jsstring \<Rightarrow> jsstring \<Rightarrow> bool" where
  "contains s p \<longleftrightarrow> occurrences p s \<noteq> []"

text \<open>
  A request that carries no usable problem text: its body parses, and the body is
  \<open>null\<close> (there is nothing to read \<open>problemText\<close> from), or the value of
  \<open>problemText\<close> is missing, is not a string, or is a string that is empty after
  trimming.
\<close>

definition no_problem_text :: "world \<Rightarrow> request \<Rightarrow> bool" where
  "no_problem_text w request \<longleftrightarrow>
     (case request of
        BodyError message \<Rightarrow> False
      | RawBody rawBody \<Rightarrow>
          (case JSON_parse w rawBody of
             Inl message \<Rightarrow> False
           | Inr body \<Rightarrow>
               (case get_property body (js ''problemText'') of
                  Inl message \<Rightarrow> True
                | Inr None \<Rightarrow> True
                | Inr (Some (JStr t)) \<Rightarrow> trim t = []
                | Inr (Some v) \<Rightarrow> True)))"

text \<open>The chunks of standard output and of standard error, put together in order.\<close>

fun captured_stdout :: "proc_event list \<Rightarrow> jsstring" where
  "captured_stdout [] = []"
| "captured_stdout (StdoutData d # evs) = d @ captured_stdout evs"
| "captured_stdout (e # evs) = captured_stdout evs"

fun captured_stderr :: "proc_event list \<Rightarrow> jsstring" where
  "captured_stderr [] = []"
| "captured_stderr (StderrData d # evs) = d @ captured_stderr evs"
| "captured_stderr (e # evs) = captured_stderr evs"

fun is_data :: "proc_event \<Rightarrow> bool" where
  "is_data (StdoutData d) = True"
| "is_data (StderrData d) = True"
| "is_data e = False"

section \<open>Example inputs\<close>

definition example_parse :: "jsstring \<Rightarrow> jsstring + json" where
  \<open>example_parse rawBody =
     (if rawBody = js ''{"problemText":"circle radius 5"}''
      then Inr (JObj [(js ''problemText'', JStr (js ''circle radius 5''))])
      else if rawBody = js ''{"problemText":"   "}''
      then Inr (JObj [(js ''problemText'', JStr (js ''   ''))])
      else if rawBody = js ''null'' then Inr JNull
      else Inl (js ''Unexpected token in JSON''))\<close>

definition example_world :: "jsstring option \<Rightarrow> generation \<Rightarrow> proc_event list \<Rightarrow> world" where
  "example_world key g evs =
     \<lparr>GEMINI_API_KEY = key, JSON_parse = example_parse,
      generateContent = (\<lambda>prompt. g), spawn_python = (\<lambda>code. evs)\<rparr>"

definition circle_request :: request where
  \<open>circle_request = RawBody (js ''{"problemText":"circle radius 5"}'')\<close>

definition blank_request :: request where
  \<open>blank_request = RawBody (js ''{"problemText":"   "}'')\<close>

definition plotting_script :: jsstring where
  "plotting_script =
     js ''```python\<newline>import matplotlib.pyplot as plt\<newline>plt.figure()\<newline>```''"

definition generated :: "jsstring \<Rightarrow> generation" where
  "generated t = GenResolves (Some \<lparr>promptFeedback = None, response_text = TextReturns t\<rparr>)"

definition image_output :: jsstring where
  "image_output = js ''MATPLOTLIB_BASE64_START:iVBORw0:MATPLOTLIB_BASE64_END\<newline>''"

definition failing_run :: "proc_event list" where
  "failing_run =
     [StdoutData (js ''partial''), StderrData (js ''Traceback (most recent call last):\<newline>''),
      StderrData (js ''NameError: name 'plt' is not defined\<newline>''), Close (Some 1)]"

definition warning_run :: "proc_event list" where
  "warning_run =
     [StderrData (js ''UserWarning: Glyph missing from font\<newline>''), StdoutData image_output,
      Close (Some 0)]"

definition keyed_world :: "generation \<Rightarrow> proc_event list \<Rightarrow> world" where
  "keyed_world g evs = example_world (Some (js ''AIza-example-key'')) g evs"

definition blocked_generation :: generation where
  "blocked_generation =
     GenResolves (Some \<lparr>promptFeedback = Some \<lparr>blockReason = Some (js ''SAFETY'')\<rparr>,
                        response_text = TextThrows (js ''Text not available.'')\<rparr>)"

definition refusal_text :: jsstring where
  "refusal_text = js ''ERROR:CANNOT_VISUALIZE: the problem has no geometric content''"

definition ocr_example_world :: "ocr_data \<Rightarrow> ocr_world" where
  "ocr_example_world d =
     \<lparr>OCR_SPACE_API_KEY = Some (js ''K8-example-key''),
      fetch_ocr = (\<lambda>upload. FetchResolves \<lparr>ok = True, http_status = 200, json_body = Inr d\<rparr>)\<rparr>"

definition photo_form :: ocr_form where
  "photo_form = \<lparr>form_file = Some [0x89, 0x50, 0x4E, 0x47], language = None\<rparr>"

definition no_results :: ocr_data where
  "no_results =
     \<lparr>IsErroredOnProcessing = False, ErrorMessage = None, ErrorDetails = None,
      ParsedResults = Some []\<rparr>"

definition blank_page :: ocr_data where
  "blank_page =
     \<lparr>IsErroredOnProcessing = False, ErrorMessage = None, ErrorDetails = None,
      ParsedResults = Some [\<lparr>ParsedText = Some []\<rparr>]\<rparr>"


section \<open>Properties of the string operations\<close>

lemma trimEnd_idem: "trimEnd (trimEnd s) = trimEnd s"
  by (simp add: trimEnd_def)

lemma trimEnd_is_take: "trimEnd s = take (length (trimEnd s)) s"
proof -
  have "dropWhile isWhiteSpace (rev s) = drop (length (takeWhile isWhiteSpace (rev s))) (rev s)"
    by (rule dropWhile_eq_drop)
  then have "trimEnd s = take (length s - length (takeWhile isWhiteSpace (rev s))) s"
    by (simp add: trimEnd_def rev_drop)
  then show ?thesis
    by (metis length_take min.absorb2 diff_le_self)
qed

lemma trimStart_hd: "trimStart s = a # cs \<Longrightarrow> \<not> isWhiteSpace a"
  unfolding trimStart_def by (metis hd_dropWhile list.sel(1) list.distinct(1))

lemma trimStart_fixed: "s = [] \<or> \<not> isWhiteSpace (hd s) \<Longrightarrow> trimStart s = s"
  unfolding trimStart_def by (cases s) auto

lemma trim_hd: "trim s = a # cs \<Longrightarrow> \<not> isWhiteSpace a"
proof -
  assume h: "trim s = a # cs"
  have "trim s = take (length (trim s)) (trimStart s)"
    unfolding trim_def by (rule trimEnd_is_take)
  with h have "hd (trimStart s) = a"
    by (metis hd_take length_greater_0_conv list.sel(1) list.distinct(1))
  moreover from h have "trimStart s \<noteq> []"
    by (auto simp: trim_def trimEnd_def)
  ultimately show ?thesis
    using trimStart_hd [of s] by (cases "trimStart s") auto
qed

lemma trim_idem: "trim (trim s) = trim s"
proof -
  have "trimStart (trim s) = trim s"
    using trim_hd [of s] by (cases "trim s") (auto intro: trimStart_fixed)
  then have "trim (trim s) = trimEnd (trim s)"
    by (simp add: trim_def)
  then show ?thesis
    by (simp add: trim_def trimEnd_idem)
qed






section \<open>Properties of the executor\<close>

lemma settled_kept:
  "settled st = Some r \<Longrightarrow> settled (foldl handle_event st evs) = Some r"
proof (induction evs arbitrary: st)
  case Nil
  then show ?case by simp
next
  case (Cons e evs)
  have "settled (handle_event st e) = Some r"
    using Cons.prems by (cases e) (simp_all add: settle_def)
  then show ?case using Cons.IH by simp
qed

lemma data_collected:
  "\<forall>e \<in> set chunks. is_data e \<Longrightarrow>
     foldl handle_event st chunks =
       st\<lparr>stdout := stdout st @ captured_stdout chunks,
          stderr := stderr st @ captured_stderr chunks\<rparr>"
proof (induction chunks arbitrary: st)
  case Nil
  then show ?case by simp
next
  case (Cons e chunks)
  then show ?case by (cases e) simp_all
qed

section \<open>Properties of the search\<close>

lemma find_at_none:
  "(\<forall>j \<le> length s. \<not> startsWith (drop j s) p) \<Longrightarrow> find_at p s k = - 1"
proof (induction s arbitrary: k)
  case Nil
  then show ?case by (auto simp: startsWith_def)
next
  case (Cons c cs)
  from Cons.prems have "\<not> startsWith (drop 0 (c # cs)) p" by blast
  then have here: "\<not> startsWith (c # cs) p" by simp
  have "\<forall>j \<le> length cs. \<not> startsWith (drop j cs) p"
  proof (intro allI impI)
    fix j assume "j \<le> length cs"
    then have "Suc j \<le> length (c # cs)" by simp
    with Cons.prems have "\<not> startsWith (drop (Suc j) (c # cs)) p" by blast
    then show "\<not> startsWith (drop j cs) p" by simp
  qed
  then have "find_at p cs (Suc k) = - 1" by (rule Cons.IH)
  with here show ?case by simp
qed

lemma find_at_first:
  "i \<le> length s \<Longrightarrow> startsWith (drop i s) p \<Longrightarrow> (\<forall>j < i. \<not> startsWith (drop j s) p)
     \<Longrightarrow> find_at p s k = int (k + i)"
proof (induction s arbitrary: i k)
  case Nil
  then show ?case by (auto simp: startsWith_def)
next
  case (Cons c cs)
  show ?case
  proof (cases i)
    case 0
    with Cons.prems show ?thesis by simp
  next
    case (Suc i')
    with Cons.prems have "\<not> startsWith (drop 0 (c # cs)) p" by blast
    then have here: "\<not> startsWith (c # cs) p" by simp
    have "\<forall>j < i'. \<not> startsWith (drop j cs) p"
    proof (intro allI impI)
      fix j assume "j < i'"
      then have "Suc j < i" using Suc by simp
      with Cons.prems have "\<not> startsWith (drop (Suc j) (c # cs)) p" by blast
      then show "\<not> startsWith (drop j cs) p" by simp
    qed
    moreover have "i' \<le> length cs" "startsWith (drop i' cs) p"
      using Cons.prems Suc by simp_all
    ultimately have "find_at p cs (Suc k) = int (Suc k + i')" by (intro Cons.IH)
    with here Suc show ?thesis by simp
  qed
qed

lemma indexOf_nat:
  "n \<le> length s \<Longrightarrow> indexOf s p (int n) = find_at p (drop n s) n"
  by (simp add: indexOf_def Let_def)

lemma occurs_in_occurrences: "occurs_at p s i \<longleftrightarrow> i \<in> set (occurrences p s)"
  by (auto simp: occurrences_def occurs_at_def less_Suc_eq_le simp del: upt_Suc)

lemma contains_iff: "contains s p \<longleftrightarrow> (\<exists>i \<le> length s. startsWith (drop i s) p)"
proof -
  have "contains s p \<longleftrightarrow> (\<exists>i. i \<in> set (occurrences p s))"
    by (cases "occurrences p s") (auto simp: contains_def)
  also have "\<dots> \<longleftrightarrow> (\<exists>i. occurs_at p s i)"
    by (simp add: occurs_in_occurrences)
  finally show ?thesis by (simp add: occurs_at_def)
qed

lemma indexOf_absent:
  assumes "\<not> contains s p"
  shows "indexOf s p pos = - 1"
proof -
  define k where "k = nat (min (max pos 0) (int (length s)))"
  have k: "k \<le> length s" by (simp add: k_def)
  have "\<forall>j \<le> length (drop k s). \<not> startsWith (drop j (drop k s)) p"
  proof (intro allI impI)
    fix j assume "j \<le> length (drop k s)"
    with k have "j + k \<le> length s" by simp
    with assms have "\<not> startsWith (drop (j + k) s) p"
      unfolding contains_iff by blast
    then show "\<not> startsWith (drop j (drop k s)) p" by simp
  qed
  then have "find_at p (drop k s) k = - 1" by (rule find_at_none)
  then show ?thesis by (simp add: indexOf_def Let_def k_def)
qed

lemma startsWith_append: "startsWith (p @ b) p"
  by (simp add: startsWith_def)

lemma startsWith_cut:
  assumes "startsWith (drop j s) p"
  shows "s = take j s @ p @ drop (j + length p) s"
proof -
  have "drop j s = take (length p) (drop j s) @ drop (length p) (drop j s)"
    by (rule append_take_drop_id [symmetric])
  moreover have "take (length p) (drop j s) = p" using assms by (simp add: startsWith_def)
  moreover have "drop (length p) (drop j s) = drop (j + length p) s" by (simp add: add.commute)
  ultimately have "drop j s = p @ drop (j + length p) s" by simp
  moreover have "s = take j s @ drop j s" by (rule append_take_drop_id [symmetric])
  ultimately show ?thesis by simp
qed

lemma substring_middle:
  "substring (a @ m @ b) (int (length a)) (int (length a + length m)) = m"
  by (simp add: substring_def Let_def)

text \<open>
  When the output is cut in exactly one way into text, start marker, payload, end marker
  and text, the first start marker is the one of the cut, and the first end marker after
  it is the one of the cut.
\<close>

lemma unique_cut_indices:
  assumes cut: "out = pre @ S @ pay @ E @ post"
    and uniq: "\<forall>pre' pay' post'. out = pre' @ S @ pay' @ E @ post' \<longrightarrow> pre' = pre \<and> pay' = pay"
  shows "indexOf out S 0 = int (length pre)"
    and "indexOf out E (int (length pre) + int (length S)) = int (length pre + length S + length pay)"
proof -
  let ?e = "length pre + length S + length pay"
  have oute: "out = take ?e out @ E @ post" using cut by simp
  have noS: "\<forall>j < length pre. \<not> startsWith (drop j out) S"
  proof (intro allI impI notI)
    fix j assume j: "j < length pre" and s: "startsWith (drop j out) S"
    have c1: "out = take j out @ S @ drop (j + length S) out" using s by (rule startsWith_cut)
    have "drop (j + length S) out = drop (j + length S) (take ?e out @ E @ post)"
      using oute by simp
    also have "\<dots> = drop (j + length S) (take ?e out) @ E @ post"
      using j cut by simp
    finally have "out = take j out @ S @ drop (j + length S) (take ?e out) @ E @ post"
      using c1 by simp
    with uniq have "take j out = pre" by blast
    then have "length (take j out) = length pre" by simp
    with j cut show False by simp
  qed
  have "startsWith (drop (length pre) out) S" using cut by (simp add: startsWith_append)
  moreover have "length pre \<le> length out" using cut by simp
  ultimately have "find_at S out 0 = int (0 + length pre)" using noS by (intro find_at_first)
  then show "indexOf out S 0 = int (length pre)"
    using indexOf_nat [of 0 out S] by simp
next
  define k where "k = length pre + length S"
  define tail where "tail = pay @ E @ post"
  have out: "out = (pre @ S) @ tail" using cut by (simp add: tail_def)
  have tail: "drop k out = tail" unfolding out by (simp add: k_def)
  have noE: "\<forall>j < length pay. \<not> startsWith (drop j tail) E"
  proof (intro allI impI notI)
    fix j assume j: "j < length pay" and s: "startsWith (drop j tail) E"
    have "tail = take j tail @ E @ drop (j + length E) tail" using s by (rule startsWith_cut)
    then have "(pre @ S) @ tail = (pre @ S) @ take j tail @ E @ drop (j + length E) tail"
      by (rule arg_cong)
    then have "out = pre @ S @ take j tail @ E @ drop (j + length E) tail"
      unfolding out by simp
    with uniq have "take j tail = pay" by blast
    then have "length (take j tail) = length pay" by simp
    with j show False by (simp add: tail_def)
  qed
  have "startsWith (drop (length pay) tail) E" by (simp add: tail_def startsWith_append)
  moreover have "length pay \<le> length tail" by (simp add: tail_def)
  ultimately have "find_at E tail k = int (k + length pay)" using noE by (intro find_at_first)
  moreover have "k \<le> length out" unfolding out by (simp add: k_def)
  ultimately have "indexOf out E (int k) = int (k + length pay)"
    using indexOf_nat [of k out E] tail by simp
  then show "indexOf out E (int (length pre) + int (length S)) = int (length pre + length S + length pay)"
    by (simp add: k_def)
qed

lemma occurs_at_cut: "occurs_at p (a @ p @ b) (length a)"
  by (simp add: occurs_at_def startsWith_append)

text \<open>A way to see that a cut is the only one: each marker occurs once in the output.\<close>

lemma single_occurrences_unique_cut:
  assumes s1: "occurrences S out = [a]" and e1: "occurrences E out = [b]"
    and cut: "out = pre @ S @ pay @ E @ post"
  shows "\<forall>pre' pay' post'. out = pre' @ S @ pay' @ E @ post' \<longrightarrow> pre' = pre \<and> pay' = pay"
proof (intro allI impI)
  fix pre' pay' post'
  assume cut': "out = pre' @ S @ pay' @ E @ post'"
  have "occurs_at S out (length pre)" unfolding cut by (rule occurs_at_cut)
  then have "length pre = a" using s1 by (simp add: occurs_in_occurrences)
  moreover have "occurs_at S out (length pre')" unfolding cut' by (rule occurs_at_cut)
  then have "length pre' = a" using s1 by (simp add: occurs_in_occurrences)
  ultimately have p: "pre' = pre" using cut cut' by (metis append_eq_append_conv)
  have "occurs_at E ((pre @ S @ pay) @ E @ post) (length (pre @ S @ pay))" by (rule occurs_at_cut)
  then have "length (pre @ S @ pay) = b" using e1 cut by (simp add: occurs_in_occurrences)
  moreover have "occurs_at E ((pre' @ S @ pay') @ E @ post') (length (pre' @ S @ pay'))"
    by (rule occurs_at_cut)
  then have "length (pre' @ S @ pay') = b" using e1 cut' by (simp add: occurs_in_occurrences)
  ultimately have "length pay' = length pay" using p by simp
  moreover have "pay' @ E @ post' = pay @ E @ post" using cut cut' p by simp
  ultimately have "pay' = pay" by (metis append_eq_append_conv)
  with p show "pre' = pre \<and> pay' = pay" by simp
qed

section \<open>Properties of the visualize route\<close>

lemma trim_Nil: "trim [] = []"
  by (simp add: trim_def trimStart_def trimEnd_def)

lemma trim_Nil_iff: "trim s = [] \<longleftrightarrow> (\<forall>c \<in> set s. isWhiteSpace c)"
proof -
  have "trim s = [] \<longleftrightarrow> (\<forall>c \<in> set (dropWhile isWhiteSpace s). isWhiteSpace c)"
    by (simp add: trim_def trimEnd_def trimStart_def dropWhile_eq_Nil_conv)
  also have "\<dots> \<longleftrightarrow> dropWhile isWhiteSpace s = []"
    by (metis hd_dropWhile hd_in_set empty_iff empty_set)
  also have "\<dots> \<longleftrightarrow> (\<forall>c \<in> set s. isWhiteSpace c)"
    by (simp add: dropWhile_eq_Nil_conv)
  finally show ?thesis .
qed

lemma refusal_not_blank:
  assumes "startsWith generatedCode (js ''ERROR:CANNOT_VISUALIZE:'')"
  shows "generatedCode \<noteq> [] \<and> trim generatedCode \<noteq> []"
proof -
  have "js ''ERROR:CANNOT_VISUALIZE:'' = 0x45 # js ''RROR:CANNOT_VISUALIZE:''"
    by (simp add: js_def)
  with assms obtain rest where g: "generatedCode = 0x45 # rest"
    by (cases generatedCode) (auto simp: startsWith_def)
  have "\<not> isWhiteSpace 0x45" by (simp add: isWhiteSpace_def)
  with g show ?thesis by (auto simp: trim_Nil_iff)
qed






lemma POST_model_call:
  assumes "GEMINI_API_KEY w = Some k" and "k \<noteq> []"
    and "JSON_parse w rawBody = Inr body"
    and "get_property body (js ''problemText'') = Inr (Some (JStr t))"
    and "trim t \<noteq> []"
  shows "POST w (RawBody rawBody) =
           (fst (handle_generation w (generateContent w (fullPrompt t))),
            [ReadBody, ModelCall (fullPrompt t)]
              @ snd (handle_generation w (generateContent w (fullPrompt t))))"
proof -
  from assms(5) have "t \<noteq> []" using trim_Nil by auto
  with assms show ?thesis
    by (simp add: POST_def Let_def split_beta)
qed






lemma example_parse_circle:
  "JSON_parse (keyed_world g evs) (js ''{\"problemText\":\"circle radius 5\"}'')
     = Inr (JObj [(js ''problemText'', JStr (js ''circle radius 5''))])"
  by (simp add: keyed_world_def example_world_def example_parse_def)

lemma circle_problemText:
  "get_property (JObj [(js ''problemText'', JStr (js ''circle radius 5''))]) (js ''problemText'')
     = Inr (Some (JStr (js ''circle radius 5'')))"
  by simp

lemma circle_not_blank: "trim (js ''circle radius 5'') \<noteq> []"
  by code_simp

lemma keyed_world_key:
  "GEMINI_API_KEY (keyed_world g evs) = Some (js ''AIza-example-key'')"
  "js ''AIza-example-key'' \<noteq> []"
  by (simp_all add: keyed_world_def example_world_def js_def)

lemmas circle_call =
  POST_model_call [OF keyed_world_key example_parse_circle circle_problemText circle_not_blank,
                   folded circle_request_def]

lemma example_parse_blank:
  "JSON_parse (example_world key g evs) (js ''{\"problemText\":\"   \"}'')
     = Inr (JObj [(js ''problemText'', JStr (js ''   ''))])"
  by (simp add: example_world_def example_parse_def js_def)

lemma blank_no_problem_text: "no_problem_text (example_world key g evs) blank_request"
proof -
  have "trim (js ''   '') = []" by code_simp
  then show ?thesis
    by (simp add: no_problem_text_def blank_request_def example_parse_blank)
qed

section \<open>Properties of the prompt\<close>

lemma find_at_skip:
  "c \<notin> set L \<Longrightarrow> find_at (c # p) (L @ rest) k = find_at (c # p) rest (k + length L)"
  by (induction L arbitrary: k) (auto simp: startsWith_def)

lemma js_char_eq: "(of_nat (of_char c) :: 16 word) = of_nat (of_char d) \<longleftrightarrow> c = d"
proof
  assume h: "(of_nat (of_char c) :: 16 word) = of_nat (of_char d)"
  have c: "(of_char c :: nat) < 2 ^ 16" and d: "(of_char d :: nat) < 2 ^ 16"
    by (rule less_trans [OF nat_of_char_less_256], simp)+
  from h have "unat (of_nat (of_char c) :: 16 word) = unat (of_nat (of_char d) :: 16 word)"
    by simp
  with c d have "(of_char c :: nat) = of_char d"
    by (simp add: unat_of_nat take_bit_nat_eq_self)
  then show "c = d" by simp
qed simp

lemma brace_in_js: "(0x7B :: 16 word) \<in> set (js s) \<longleftrightarrow> CHR ''{'' \<in> set s"
proof -
  have b: "(of_nat (of_char a) :: 16 word) = 0x7B \<longleftrightarrow> a = CHR ''{''" for a
    using js_char_eq [of a "CHR ''{''"] by simp
  have c: "(0x7B :: 16 word) = of_nat (of_char a) \<longleftrightarrow> a = CHR ''{''" for a
    using b [of a] by (simp only: eq_commute)
  show ?thesis by (induction s) (auto simp: js_def b c)
qed

lemma placeholder_Cons: "PROBLEM_TEXT_placeholder = 0x7B # js ''PROBLEM_TEXT}''"
  by (simp add: PROBLEM_TEXT_placeholder_def js_def)

lemma template_cut:
  "ENGINEERED_PROMPT_TEMPLATE = template_head @ PROBLEM_TEXT_placeholder @ template_tail"
proof -
  have "length template_lines = 44" by (simp add: template_lines_def)
  then have "template_lines = take 40 template_lines @ template_lines ! 40 # drop 41 template_lines"
    using id_take_nth_drop [of 40 template_lines] by simp
  then have "concat template_lines =
      concat (take 40 template_lines) @ template_lines ! 40 @ concat (drop 41 template_lines)"
    by (metis concat.simps(2) concat_append)
  moreover have "template_lines ! 40 = js ''{PROBLEM_TEXT}\<newline>''"
    by (simp add: template_lines_def)
  moreover have "js ''{PROBLEM_TEXT}\<newline>'' = PROBLEM_TEXT_placeholder @ [newline]"
    by (simp add: js_def newline_def PROBLEM_TEXT_placeholder_def)
  ultimately show ?thesis
    by (simp add: ENGINEERED_PROMPT_TEMPLATE_def template_head_def template_tail_def)
qed

lemma template_head_parts:
  "template_head =
     concat (take 32 template_lines)
     @ js ''print(f\"MATPLOTLIB_BASE64_START:''
     @ 0x7B # js ''pic_hash.decode('utf-8')}:MATPLOTLIB_BASE64_END\")\<newline>''
     @ concat (take 7 (drop 33 template_lines))"
proof -
  have "take 40 template_lines =
      take 32 template_lines @ template_lines ! 32 # take 7 (drop 33 template_lines)"
    by (simp add: template_lines_def)
  moreover have "template_lines ! 32 =
      js ''print(f\"MATPLOTLIB_BASE64_START:{pic_hash.decode('utf-8')}:MATPLOTLIB_BASE64_END\")\<newline>''"
    by (simp add: template_lines_def)
  moreover have "js ''print(f\"MATPLOTLIB_BASE64_START:{pic_hash.decode('utf-8')}:MATPLOTLIB_BASE64_END\")\<newline>''
      = js ''print(f\"MATPLOTLIB_BASE64_START:''
        @ 0x7B # js ''pic_hash.decode('utf-8')}:MATPLOTLIB_BASE64_END\")\<newline>''"
    by (simp add: js_def)
  ultimately show ?thesis
    by (simp add: template_head_def)
qed

lemma no_brace_before: "0x7B \<notin> set (concat (take 32 template_lines))"
  by (simp add: template_lines_def brace_in_js)

lemma no_brace_between: "0x7B \<notin> set (concat (take 7 (drop 33 template_lines)))"
  by (simp add: template_lines_def brace_in_js)

lemma no_brace_print:
  "0x7B \<notin> set (js ''print(f\"MATPLOTLIB_BASE64_START:'')"
  "0x7B \<notin> set (js ''pic_hash.decode('utf-8')}:MATPLOTLIB_BASE64_END\")\<newline>'')"
  by (simp_all add: brace_in_js)

lemma template_index:
  "indexOf ENGINEERED_PROMPT_TEMPLATE PROBLEM_TEXT_placeholder 0 = int (length template_head)"
proof -
  let ?p = "js ''PROBLEM_TEXT}''"
  let ?S1 = "concat (take 32 template_lines)"
  let ?B1 = "js ''print(f\"MATPLOTLIB_BASE64_START:''"
  let ?B2 = "js ''pic_hash.decode('utf-8')}:MATPLOTLIB_BASE64_END\")\<newline>''"
  let ?S2 = "concat (take 7 (drop 33 template_lines))"
  let ?rest = "PROBLEM_TEXT_placeholder @ template_tail"
  have b2: "?B2 = 0x70 # js ''ic_hash.decode('utf-8')}:MATPLOTLIB_BASE64_END\")\<newline>''"
    by (simp add: js_def)
  have p: "?p = 0x50 # js ''ROBLEM_TEXT}''" by (simp add: js_def)
  have step: "find_at (0x7B # ?p) (0x7B # ?B2 @ ?S2 @ ?rest) k
                = find_at (0x7B # ?p) (?B2 @ ?S2 @ ?rest) (Suc k)" for k
    unfolding b2 p by (simp add: startsWith_def)
  have here: "find_at (0x7B # ?p) ((0x7B # ?p) @ template_tail) k = int k" for k
    by (simp add: startsWith_def)
  have "find_at (0x7B # ?p) (?S1 @ ?B1 @ 0x7B # ?B2 @ ?S2 @ ?rest) 0
      = find_at (0x7B # ?p) (?B1 @ 0x7B # ?B2 @ ?S2 @ ?rest) (0 + length ?S1)"
    using no_brace_before by (rule find_at_skip)
  also have "\<dots> = find_at (0x7B # ?p) (0x7B # ?B2 @ ?S2 @ ?rest) (0 + length ?S1 + length ?B1)"
    using no_brace_print(1) by (rule find_at_skip)
  also have "\<dots> = find_at (0x7B # ?p) (?B2 @ ?S2 @ ?rest) (Suc (0 + length ?S1 + length ?B1))"
    by (rule step)
  also have "\<dots> = find_at (0x7B # ?p) (?S2 @ ?rest) (Suc (0 + length ?S1 + length ?B1) + length ?B2)"
    using no_brace_print(2) by (rule find_at_skip)
  also have "\<dots> = find_at (0x7B # ?p) ?rest (Suc (0 + length ?S1 + length ?B1) + length ?B2 + length ?S2)"
    using no_brace_between by (rule find_at_skip)
  also have "\<dots> = int (Suc (0 + length ?S1 + length ?B1) + length ?B2 + length ?S2)"
    unfolding placeholder_Cons by (rule here)
  also have "Suc (0 + length ?S1 + length ?B1) + length ?B2 + length ?S2 = length template_head"
    unfolding template_head_parts by simp
  finally have "find_at (0x7B # ?p) (?S1 @ ?B1 @ 0x7B # ?B2 @ ?S2 @ ?rest) 0 = int (length template_head)" .
  moreover have "ENGINEERED_PROMPT_TEMPLATE = ?S1 @ ?B1 @ 0x7B # ?B2 @ ?S2 @ ?rest"
    unfolding template_cut template_head_parts by simp
  ultimately show ?thesis
    by (simp add: indexOf_def placeholder_Cons)
qed

lemma fullPrompt_eq:
  "fullPrompt problemText =
     template_head
     @ GetSubstitution PROBLEM_TEXT_placeholder template_head template_tail problemText
     @ template_tail"
proof -
  have "substring (template_head @ PROBLEM_TEXT_placeholder @ template_tail) 0
          (int (length template_head)) = template_head"
    by (simp add: substring_def Let_def)
  moreover have "substringFrom (template_head @ PROBLEM_TEXT_placeholder @ template_tail)
          (int (length template_head) + int (length PROBLEM_TEXT_placeholder)) = template_tail"
    by (simp add: substringFrom_def substring_def Let_def)
  ultimately show ?thesis
    unfolding fullPrompt_def replace_def Let_def template_index
    unfolding template_cut by simp
qed

lemma GetSubstitution_plain:
  "0x24 \<notin> set r \<Longrightarrow> GetSubstitution m p f r = r"
  by (induction m p f r rule: GetSubstitution.induct) auto

text \<open>For a problem text without a dollar sign the prompt is the literal one.\<close>

lemma fullPrompt_literal:
  "0x24 \<notin> set problemText \<Longrightarrow> fullPrompt problemText = literal_prompt problemText"
  by (simp add: fullPrompt_eq literal_prompt_def GetSubstitution_plain)

text \<open>
  The scenario of the specification: the problem \<open>circle radius 5\<close>, a script inside
  fences, a run that prints the markers around \<open>iVBORw0\<close> and a warning on standard
  error.
\<close>

lemma circle_scenario:
  "fst (POST (keyed_world (generated plotting_script) warning_run) circle_request)
     = Some (image_response (js ''iVBORw0''))"
proof -
  have "cleanCode plotting_script = js ''import matplotlib.pyplot as plt\<newline>plt.figure()''"
    by code_simp
  have "executePython (\<lambda>code. warning_run) c = Some (Resolved image_output)" for c
    unfolding executePython_def by code_simp
  moreover have "extract_image image_output = image_response (js ''iVBORw0'')"
    by code_simp
  ultimately have "run_code (keyed_world (generated plotting_script) warning_run) c
      = Some (image_response (js ''iVBORw0''))" for c
    by (simp add: run_code_def keyed_world_def example_world_def)
  moreover have "plotting_script \<noteq> []" "trim plotting_script \<noteq> []"
    "\<not> startsWith plotting_script (js ''ERROR:CANNOT_VISUALIZE:'')"
    by code_simp+
  ultimately have "fst (handle_generation (keyed_world (generated plotting_script) warning_run)
                         (generated plotting_script)) = Some (image_response (js ''iVBORw0''))"
    by (simp add: handle_generation_def generated_def blocked_def Let_def)
  moreover have "generateContent (keyed_world (generated plotting_script) warning_run) p
      = generated plotting_script" for p
    by (simp add: keyed_world_def example_world_def)
  ultimately show ?thesis
    by (simp add: circle_call)
qed

section \<open>Properties of the sanitizer\<close>















section \<open>The claims\<close>




text \<open>
  C2. When the captured output is cut in exactly one way into text, start marker,
  payload, end marker and text, the extractor answers 200 with exactly that payload.
  When the start marker or the end marker does not occur in the output, it answers 500,
  and the detail of the error ends with the whole captured output.
\<close>

theorem extract_image_payload:
  "(out = pre @ base64MarkerStart @ payload @ base64MarkerEnd @ post
      \<and> (\<forall>pre' payload' post'.
            out = pre' @ base64MarkerStart @ payload' @ base64MarkerEnd @ post'
            \<longrightarrow> pre' = pre \<and> payload' = payload)
      \<longrightarrow> extract_image out = image_response payload)
   \<and> (\<not> contains out base64MarkerStart \<or> \<not> contains out base64MarkerEnd
      \<longrightarrow> extract_image out =
            error_response 500 (js ''Failed to process visualization from Python script'')
              (Some (Text (js ''Could not find base64 image markers in the script output. Python output was: ''
                           @ out))))"
proof (intro conjI impI)
  assume h: "out = pre @ base64MarkerStart @ payload @ base64MarkerEnd @ post
      \<and> (\<forall>pre' payload' post'.
            out = pre' @ base64MarkerStart @ payload' @ base64MarkerEnd @ post'
            \<longrightarrow> pre' = pre \<and> payload' = payload)"
  then have cut: "out = pre @ base64MarkerStart @ payload @ base64MarkerEnd @ post"
    and uniq: "\<forall>pre' payload' post'.
            out = pre' @ base64MarkerStart @ payload' @ base64MarkerEnd @ post'
            \<longrightarrow> pre' = pre \<and> payload' = payload"
    by blast+
  have s: "indexOf out base64MarkerStart 0 = int (length pre)"
    using cut uniq by (rule unique_cut_indices(1))
  have e: "indexOf out base64MarkerEnd (int (length pre) + int (length base64MarkerStart))
             = int (length pre + length base64MarkerStart + length payload)"
    using cut uniq by (rule unique_cut_indices(2))
  have "substring ((pre @ base64MarkerStart) @ payload @ (base64MarkerEnd @ post))
          (int (length (pre @ base64MarkerStart)))
          (int (length (pre @ base64MarkerStart) + length payload)) = payload"
    by (rule substring_middle)
  then have sub: "substring out (int (length pre) + int (length base64MarkerStart))
                (int (length pre + length base64MarkerStart + length payload)) = payload"
    using cut by simp
  show "extract_image out = image_response payload"
    unfolding extract_image_def Let_def s e sub by simp
next
  assume "\<not> contains out base64MarkerStart \<or> \<not> contains out base64MarkerEnd"
  then have "indexOf out base64MarkerStart 0 = - 1
              \<or> indexOf out base64MarkerEnd
                   (indexOf out base64MarkerStart 0 + int (length base64MarkerStart)) = - 1"
    using indexOf_absent by blast
  then show "extract_image out =
            error_response 500 (js ''Failed to process visualization from Python script'')
              (Some (Text (js ''Could not find base64 image markers in the script output. Python output was: ''
                           @ out)))"
    unfolding extract_image_def Let_def by auto
qed

theorem extract_image_payload_witness:
  "extract_image image_output = image_response (js ''iVBORw0'')
   \<and> extract_image (js ''Traceback (most recent call last):'') =
       error_response 500 (js ''Failed to process visualization from Python script'')
         (Some (Text (js ''Could not find base64 image markers in the script output. Python output was: Traceback (most recent call last):'')))"
proof -
  have cut: "image_output = [] @ base64MarkerStart @ js ''iVBORw0'' @ base64MarkerEnd @ [newline]"
    by code_simp
  have s1: "occurrences base64MarkerStart image_output = [0]" by code_simp
  have e1: "occurrences base64MarkerEnd image_output = [31]" by code_simp
  have uniq: "\<forall>pre' payload' post'.
      image_output = pre' @ base64MarkerStart @ payload' @ base64MarkerEnd @ post'
      \<longrightarrow> pre' = [] \<and> payload' = js ''iVBORw0''"
    using s1 e1 cut by (rule single_occurrences_unique_cut)
  have none: "\<not> contains (js ''Traceback (most recent call last):'') base64MarkerStart"
    by code_simp
  have msg: "js ''Could not find base64 image markers in the script output. Python output was: ''
               @ js ''Traceback (most recent call last):''
             = js ''Could not find base64 image markers in the script output. Python output was: Traceback (most recent call last):''"
    by (simp add: js_def)
  from extract_image_payload [of image_output "[]" "js ''iVBORw0''" "[newline]"] cut uniq
  have a: "extract_image image_output = image_response (js ''iVBORw0'')" by blast
  from extract_image_payload [of "js ''Traceback (most recent call last):''"] none
  have "extract_image (js ''Traceback (most recent call last):'') =
       error_response 500 (js ''Failed to process visualization from Python script'')
         (Some (Text (js ''Could not find base64 image markers in the script output. Python output was: ''
                           @ js ''Traceback (most recent call last):'')))" by blast
  with a msg show ?thesis by simp
qed




text \<open>
  C4, as amended. When the model's answer carries a block reason, the route answers with
  status 400, the error \<open>Content blocked: <reason>\<close> and the prompt feedback as details,
  and starts no Python process. The status is the one of bad input; only the message
  tells the two apart. It differs from the 422 of a refusal and from the 500 of upstream
  and execution errors.
\<close>

theorem POST_blocked:
  assumes "GEMINI_API_KEY w = Some k" and "k \<noteq> []"
    and "JSON_parse w rawBody = Inr body"
    and "get_property body (js ''problemText'') = Inr (Some (JStr t))"
    and "trim t \<noteq> []"
    and "generateContent w (fullPrompt t) = GenResolves (Some r)"
    and "promptFeedback r = Some fb"
    and "blockReason fb = Some reason" and "reason \<noteq> []"
  shows "POST w (RawBody rawBody) =
           (Some (error_response 400 (js ''Content blocked: '' @ reason) (Some (Feedback fb))),
            [ReadBody, ModelCall (fullPrompt t)])"
proof -
  have "blocked r = Some reason"
    using assms(7-9) by (simp add: blocked_def)
  then have "handle_generation w (GenResolves (Some r)) =
      (Some (error_response 400 (js ''Content blocked: '' @ reason) (Some (Feedback fb))), [])"
    using assms(7) by (simp add: handle_generation_def)
  then show ?thesis
    using POST_model_call [OF assms(1-5)] assms(6) by simp
qed

theorem POST_blocked_witness:
  "POST (keyed_world blocked_generation []) circle_request =
     (Some (error_response 400 (js ''Content blocked: '' @ js ''SAFETY'')
              (Some (Feedback \<lparr>blockReason = Some (js ''SAFETY'')\<rparr>))),
      [ReadBody, ModelCall (fullPrompt (js ''circle radius 5''))])"
proof -
  have g: "generateContent (keyed_world blocked_generation []) (fullPrompt (js ''circle radius 5''))
      = GenResolves (Some \<lparr>promptFeedback = Some \<lparr>blockReason = Some (js ''SAFETY'')\<rparr>,
                        response_text = TextThrows (js ''Text not available.'')\<rparr>)"
    by (simp add: keyed_world_def example_world_def blocked_generation_def)
  have r: "js ''SAFETY'' \<noteq> []" by (simp add: js_def)
  from POST_blocked [OF keyed_world_key example_parse_circle circle_problemText circle_not_blank g _ _ r]
  show ?thesis by (simp add: circle_request_def)
qed

text \<open>C4, as stated, fails: the status of a blocked request is 400, not 422.\<close>

theorem POST_blocked_status:
  "map_option status (fst (POST (keyed_world blocked_generation []) circle_request)) = Some 400
   \<and> map_option status (fst (POST (keyed_world blocked_generation []) circle_request)) \<noteq> Some 422"
proof -
  have "handle_generation (keyed_world blocked_generation []) blocked_generation =
      (Some (error_response 400 (js ''Content blocked: '' @ js ''SAFETY'')
              (Some (Feedback \<lparr>blockReason = Some (js ''SAFETY'')\<rparr>))), [])"
    by (simp add: handle_generation_def blocked_generation_def blocked_def js_def)
  moreover have "generateContent (keyed_world blocked_generation []) p = blocked_generation" for p
    by (simp add: keyed_world_def example_world_def)
  ultimately show ?thesis
    by (simp add: circle_call error_response_def)
qed

text \<open>
  C5. When the text of the model's answer starts with \<open>ERROR:CANNOT_VISUALIZE:\<close> (and the
  answer carries no block reason), the route answers with status 422, the error
  \<open>Problem cannot be visualized by AI\<close> and the text as details. It has called the model
  and started no Python process.
\<close>

theorem POST_refusal:
  assumes "GEMINI_API_KEY w = Some k" and "k \<noteq> []"
    and "JSON_parse w rawBody = Inr body"
    and "get_property body (js ''problemText'') = Inr (Some (JStr t))"
    and "trim t \<noteq> []"
    and "generateContent w (fullPrompt t) = GenResolves (Some r)"
    and "blocked r = None"
    and "response_text r = TextReturns generatedCode"
    and "startsWith generatedCode (js ''ERROR:CANNOT_VISUALIZE:'')"
  shows "POST w (RawBody rawBody) =
           (Some (error_response 422 (js ''Problem cannot be visualized by AI'')
                    (Some (Text generatedCode))),
            [ReadBody, ModelCall (fullPrompt t)])"
proof -
  have "generatedCode \<noteq> [] \<and> trim generatedCode \<noteq> []"
    using assms(9) by (rule refusal_not_blank)
  then have "handle_generation w (GenResolves (Some r)) =
      (Some (error_response 422 (js ''Problem cannot be visualized by AI'')
               (Some (Text generatedCode))), [])"
    using assms(7-9) by (simp add: handle_generation_def)
  then show ?thesis
    using POST_model_call [OF assms(1-5)] assms(6) by simp
qed

theorem POST_refusal_witness:
  "startsWith refusal_text (js ''ERROR:CANNOT_VISUALIZE:'')
   \<and> POST (keyed_world (generated refusal_text) warning_run) circle_request =
       (Some (error_response 422 (js ''Problem cannot be visualized by AI'')
                (Some (Text refusal_text))),
        [ReadBody, ModelCall (fullPrompt (js ''circle radius 5''))])"
proof -
  have g: "generateContent (keyed_world (generated refusal_text) warning_run)
             (fullPrompt (js ''circle radius 5''))
      = GenResolves (Some \<lparr>promptFeedback = None, response_text = TextReturns refusal_text\<rparr>)"
    by (simp add: keyed_world_def example_world_def generated_def)
  have b: "blocked \<lparr>promptFeedback = None, response_text = TextReturns refusal_text\<rparr> = None"
    by (simp add: blocked_def)
  have s: "startsWith refusal_text (js ''ERROR:CANNOT_VISUALIZE:'')"
    by code_simp
  from POST_refusal [OF keyed_world_key example_parse_circle circle_problemText circle_not_blank g b _ s] s
  show ?thesis by (simp add: circle_request_def)
qed

text \<open>
  C6, as amended. A request whose body parses and whose problem text is missing, is not
  a string or is empty after trimming never reaches the model or a Python process: the
  route does nothing to the outside but read the body. When the credential is set and the
  body is not \<open>null\<close>, the answer is the 400 error \<open>No problem text provided or text is
  invalid.\<close> Without the credential the answer is the 500 configuration error.
\<close>

theorem POST_no_problem_text:
  assumes "no_problem_text w request"
  shows "(\<forall>e \<in> set (snd (POST w request)). e = ReadBody)
         \<and> (\<forall>k. GEMINI_API_KEY w = Some k \<and> k \<noteq> []
                 \<and> (\<forall>rawBody. request = RawBody rawBody \<longrightarrow> JSON_parse w rawBody \<noteq> Inr JNull)
              \<longrightarrow> POST w request =
                    (Some (error_response 400
                             (js ''No problem text provided or text is invalid.'') None),
                     [ReadBody]))"
proof -
  from assms obtain rawBody body where req: "request = RawBody rawBody"
    and parse: "JSON_parse w rawBody = Inr body"
    by (auto simp: no_problem_text_def split: request.splits sum.splits)
  show ?thesis
  proof (cases "GEMINI_API_KEY w = None \<or> GEMINI_API_KEY w = Some []")
    case True
    then have "snd (POST w request) = []" by (auto simp: POST_def)
    with True show ?thesis by auto
  next
    case False
    then obtain k where key: "GEMINI_API_KEY w = Some k" "k \<noteq> []"
      by (cases "GEMINI_API_KEY w") auto
    show ?thesis
    proof (cases "get_property body (js ''problemText'')")
      case (Inl message)
      then have "body = JNull" by (cases body) simp_all
      moreover have "snd (POST w request) = [ReadBody]"
        using key req parse Inl by (simp add: POST_def)
      ultimately show ?thesis using req parse by auto
    next
      case (Inr problemText)
      have bad: "\<not> truthy problemText \<or> as_string problemText = None
                  \<or> trim (the (as_string problemText)) = []"
      proof (cases problemText)
        case None
        then show ?thesis by simp
      next
        case (Some v)
        with assms req parse Inr show ?thesis
          by (cases v) (simp_all add: no_problem_text_def)
      qed
      then have "POST w request =
          (Some (error_response 400 (js ''No problem text provided or text is invalid.'') None),
           [ReadBody])"
        using key req parse Inr by (auto simp: POST_def)
      then show ?thesis by simp
    qed
  qed
qed

theorem POST_no_problem_text_witness:
  "no_problem_text (keyed_world GenPending []) blank_request
   \<and> POST (keyed_world GenPending []) blank_request =
       (Some (error_response 400 (js ''No problem text provided or text is invalid.'') None),
        [ReadBody])
   \<and> snd (POST (example_world None GenPending []) blank_request) = []"
proof -
  have h: "no_problem_text (keyed_world GenPending []) blank_request"
    unfolding keyed_world_def by (rule blank_no_problem_text)
  have n: "\<forall>rawBody. blank_request = RawBody rawBody
             \<longrightarrow> JSON_parse (keyed_world GenPending []) rawBody \<noteq> Inr JNull"
    by (simp add: blank_request_def keyed_world_def example_parse_blank)
  have s: "snd (POST (example_world None GenPending []) blank_request) = []"
    by (simp add: POST_def example_world_def)
  from POST_no_problem_text [OF h] keyed_world_key n h s show ?thesis by blast
qed

text \<open>
  C6, as stated, fails: without the credential a request with blank problem text gets
  status 500, not a status of the 400 class.
\<close>

theorem POST_blank_without_key:
  "no_problem_text (example_world None GenPending []) blank_request
   \<and> map_option status (fst (POST (example_world None GenPending []) blank_request)) = Some 500"
proof -
  have "map_option status (fst (POST (example_world None GenPending []) blank_request)) = Some 500"
    by (simp add: POST_def example_world_def error_response_def)
  then show ?thesis using blank_no_problem_text by simp
qed

text \<open>
  C7. When the process emits chunks of output and then \<open>close\<close>: with a non-zero exit
  code \<open>executePython\<close> rejects, and the message carries the exit code and then the
  captured standard error unchanged; with exit code zero it resolves with the whole
  captured standard output, whatever was written to standard error.
\<close>

theorem executePython_exit:
  assumes "spawn code = chunks @ Close exitCode # rest"
    and "\<forall>e \<in> set chunks. is_data e"
  shows "(\<forall>c. exitCode = Some c \<and> c \<noteq> 0 \<longrightarrow>
            executePython spawn code =
              Some (Rejected (js ''Python script execution failed with code '' @ show_int c
                              @ js '': '' @ captured_stderr chunks)))
         \<and> (exitCode = Some 0 \<longrightarrow>
              executePython spawn code = Some (Resolved (captured_stdout chunks)))"
proof -
  let ?st = "\<lparr>stdout = [], stderr = [], settled = None\<rparr>"
  let ?st' = "foldl handle_event ?st chunks"
  have st': "?st' = \<lparr>stdout = captured_stdout chunks, stderr = captured_stderr chunks, settled = None\<rparr>"
    using data_collected [OF assms(2), of ?st] by simp
  have run: "executePython spawn code = settled (foldl handle_event (handle_event ?st' (Close exitCode)) rest)"
    by (simp add: executePython_def assms(1))
  show ?thesis
  proof (intro conjI allI impI)
    fix c assume "exitCode = Some c \<and> c \<noteq> 0"
    then have "settled (handle_event ?st' (Close exitCode)) =
        Some (Rejected (js ''Python script execution failed with code '' @ show_int c
                              @ js '': '' @ captured_stderr chunks))"
      unfolding st' by (simp add: settle_def show_exitCode_def)
    then show "executePython spawn code =
              Some (Rejected (js ''Python script execution failed with code '' @ show_int c
                              @ js '': '' @ captured_stderr chunks))"
      unfolding run by (rule settled_kept)
  next
    assume "exitCode = Some 0"
    then have "settled (handle_event ?st' (Close exitCode)) = Some (Resolved (captured_stdout chunks))"
      unfolding st' by (simp add: settle_def)
    then show "executePython spawn code = Some (Resolved (captured_stdout chunks))"
      unfolding run by (rule settled_kept)
  qed
qed

theorem executePython_exit_witness:
  "executePython (\<lambda>code. failing_run) (js ''plt.plot()'') =
     Some (Rejected (js ''Python script execution failed with code 1: Traceback (most recent call last):\<newline>NameError: name 'plt' is not defined\<newline>''))
   \<and> executePython (\<lambda>code. warning_run) (js ''plt.plot()'') = Some (Resolved image_output)"
proof -
  have f: "(\<lambda>code. failing_run) (js ''plt.plot()'') = take 3 failing_run @ Close (Some 1) # []"
    by (simp add: failing_run_def)
  have fd: "\<forall>e \<in> set (take 3 failing_run). is_data e"
    by (simp add: failing_run_def)
  have w: "(\<lambda>code. warning_run) (js ''plt.plot()'') = take 2 warning_run @ Close (Some 0) # []"
    by (simp add: warning_run_def)
  have wd: "\<forall>e \<in> set (take 2 warning_run). is_data e"
    by (simp add: warning_run_def)
  have m: "js ''Python script execution failed with code '' @ show_int 1 @ js '': '' @ captured_stderr (take 3 failing_run)
    = js ''Python script execution failed with code 1: Traceback (most recent call last):\<newline>NameError: name 'plt' is not defined\<newline>''"
    by code_simp
  have o: "captured_stdout (take 2 warning_run) = image_output"
    by code_simp
  from executePython_exit [OF f fd] executePython_exit [OF w wd] m o
  show ?thesis by simp
qed

text \<open>
  C8. The code builds the prompt with \<open>String.prototype.replace\<close>, which reads dollar
  patterns in the replacement: the problem text \<open>Plot $$y = x^2$$\<close> arrives in the prompt
  as \<open>Plot $y = x^2$\<close>, so the prompt is not the template with the problem text put in
  unchanged.
\<close>

theorem fullPrompt_dollar_signs:
  "fullPrompt (js ''Plot $$y = x^2$$'') = literal_prompt (js ''Plot $y = x^2$'')
   \<and> fullPrompt (js ''Plot $$y = x^2$$'') \<noteq> literal_prompt (js ''Plot $$y = x^2$$'')"
proof -
  have "GetSubstitution m p f (js ''Plot $$y = x^2$$'') = js ''Plot $y = x^2$''" for m p f
    by (simp add: js_def)
  then have a: "fullPrompt (js ''Plot $$y = x^2$$'') = literal_prompt (js ''Plot $y = x^2$'')"
    by (simp add: fullPrompt_eq literal_prompt_def)
  have "js ''Plot $y = x^2$'' \<noteq> js ''Plot $$y = x^2$$''"
    by (simp add: js_def)
  then have "literal_prompt (js ''Plot $y = x^2$'') \<noteq> literal_prompt (js ''Plot $$y = x^2$$'')"
    by (simp add: literal_prompt_def)
  with a show ?thesis by simp
qed

text \<open>
  C9, as amended. For an answer of the OCR service with HTTP success and without a
  processing error: when it has no parsed results (\<open>ParsedResults\<close> missing or empty)
  the route answers 200 with the text \<open>No text found in image.\<close>; when it has parsed
  results the route answers 200 with the text of the first one as it is, also when that
  text is empty. In both cases the route answers with status 200.
\<close>

theorem POST_ocr_success:
  assumes "form_file formData = Some f"
    and "OCR_SPACE_API_KEY w = Some k" and "k \<noteq> []"
    and "fetch_ocr w \<lparr>upload_file = f, apikey = k,
                       upload_language = or_default (language formData) (js ''eng''),
                       isOverlayRequired = js ''false''\<rparr> = FetchResolves ocrResponse"
    and "ok ocrResponse" and "json_body ocrResponse = Inr ocrData"
    and "\<not> IsErroredOnProcessing ocrData"
  shows "(ParsedResults ocrData = None \<or> ParsedResults ocrData = Some []
            \<longrightarrow> POST_ocr w (Form formData) =
                  Some (ocr_ok (Some (js ''No text found in image.'')) (Some ocrData)))
         \<and> (\<forall>p ps. ParsedResults ocrData = Some (p # ps)
              \<longrightarrow> POST_ocr w (Form formData) = Some (ocr_ok (ParsedText p) None))
         \<and> (\<exists>r. POST_ocr w (Form formData) = Some r \<and> status r = 200)"
proof -
  have run: "POST_ocr w (Form formData) =
      (if ParsedResults ocrData = None \<or> ParsedResults ocrData = Some []
       then Some (ocr_ok (Some (js ''No text found in image.'')) (Some ocrData))
       else Some (ocr_ok (ParsedText (hd (the (ParsedResults ocrData)))) None))"
    using assms by (simp add: POST_ocr_def Let_def)
  show ?thesis
    unfolding run by (auto simp: ocr_ok_def)
qed

theorem POST_ocr_success_witness:
  "POST_ocr (ocr_example_world no_results) (Form photo_form) =
     Some (ocr_ok (Some (js ''No text found in image.'')) (Some no_results))
   \<and> POST_ocr (ocr_example_world blank_page) (Form photo_form) = Some (ocr_ok (Some []) None)"
proof -
  have f: "form_file photo_form = Some [0x89, 0x50, 0x4E, 0x47]"
    by (simp add: photo_form_def)
  have k: "OCR_SPACE_API_KEY (ocr_example_world d) = Some (js ''K8-example-key'')" for d
    by (simp add: ocr_example_world_def)
  have kn: "js ''K8-example-key'' \<noteq> []" by (simp add: js_def)
  have c: "fetch_ocr (ocr_example_world d) u
             = FetchResolves \<lparr>ok = True, http_status = 200, json_body = Inr d\<rparr>" for d u
    by (simp add: ocr_example_world_def)
  have n: "ParsedResults no_results = Some []" "\<not> IsErroredOnProcessing no_results"
    by (simp_all add: no_results_def)
  have b: "ParsedResults blank_page = Some [\<lparr>ParsedText = Some []\<rparr>]"
    "\<not> IsErroredOnProcessing blank_page"
    by (simp_all add: blank_page_def)
  from POST_ocr_success [OF f k kn c _ _ n(2)] n(1)
  have 1: "POST_ocr (ocr_example_world no_results) (Form photo_form) =
     Some (ocr_ok (Some (js ''No text found in image.'')) (Some no_results))" by simp
  from POST_ocr_success [OF f k kn c _ _ b(2)] b(1)
  have 2: "POST_ocr (ocr_example_world blank_page) (Form photo_form) = Some (ocr_ok (Some []) None)"
    by simp
  from 1 2 show ?thesis by simp
qed

text \<open>
  C9, as stated, fails: the service finds no text on the page and gives one parsed result
  with empty text. The route answers with the empty text, not with the sentinel.
\<close>

theorem POST_ocr_blank_page:
  "map_option extractedText (POST_ocr (ocr_example_world blank_page) (Form photo_form))
     = Some (Some [])
   \<and> map_option extractedText (POST_ocr (ocr_example_world blank_page) (Form photo_form))
     \<noteq> Some (Some (js ''No text found in image.''))"
proof -
  have "POST_ocr (ocr_example_world blank_page) (Form photo_form) = Some (ocr_ok (Some []) None)"
    by (simp add: POST_ocr_def ocr_example_world_def photo_form_def blank_page_def js_def)
  then show ?thesis by (simp add: ocr_ok_def js_def)
qed

text \<open>
  C10. Without the credential \<open>GEMINI_API_KEY\<close> every request, whatever its body, gets
  the configuration error with status 500, and the route has done nothing to the
  outside: the body is not read, the model is not called, no process is started.
\<close>

theorem POST_without_key:
  assumes "GEMINI_API_KEY w = None"
  shows "POST w request =
           (Some (error_response 500 (js ''AI service configuration error - API key not found'')
                    (Some (Text (js ''Please set the GEMINI_API_KEY environment variable'')))),
            [])
         \<and> (\<exists>r. fst (POST w request) = Some r \<and> status r = 500 \<and> error_envelope r)
         \<and> snd (POST w request) = []"
  using assms by (simp add: POST_def error_response_def error_envelope_def)

theorem POST_without_key_witness:
  "GEMINI_API_KEY (example_world None GenPending []) = None
   \<and> POST (example_world None GenPending []) (RawBody (js ''not json'')) =
       (Some (error_response 500 (js ''AI service configuration error - API key not found'')
                (Some (Text (js ''Please set the GEMINI_API_KEY environment variable'')))),
        [])
   \<and> snd (POST (example_world None GenPending []) blank_request) = []"
proof -
  have h: "GEMINI_API_KEY (example_world None GenPending []) = None"
    by (simp add: example_world_def)
  from POST_without_key [OF h, of "RawBody (js ''not json'')"]
       POST_without_key [OF h, of blank_request] h
  show ?thesis by blast
qed

end
